theory Spec2Isabelle
  imports Complex_Main
begin

section \<open>Environment state of the application (src/src/App.tsx)\<close>

text \<open>
  The environment is the TypeScript union
  \<^verbatim>\<open>'cyber' | 'nature' | 'desert' | 'rainforest' | 'iceland'\<close> (App.tsx line 21).
\<close>

datatype environment = cyber | nature | desert | rainforest | iceland

text \<open>
  \<^verbatim>\<open>setTimeout\<close> callbacks of AppContent. Every delay in the file is 500 ms, so
  timers expire in the order in which they were scheduled; the pending timers are kept
  as a queue of (delay, callback).
  \<^item> \<open>ToggleFadeOut\<close>: the outer callback of toggleEnvironment (lines 30-43);
  \<^item> \<open>ChangeFadeOut e\<close>: the outer callback of handleEnvironmentChange (lines 50-53);
  \<^item> \<open>FadeIn\<close>: the inner callback, \<^verbatim>\<open>setIsTransitioning(false)\<close>.
\<close>

datatype timer_callback = ToggleFadeOut | ChangeFadeOut environment | FadeIn

record app_state =
  environment :: environment
  isTransitioning :: bool
  timers :: "(nat \<times> timer_callback) list"

definition initial_app_state :: app_state where
  "initial_app_state = \<lparr>environment = cyber, isTransitioning = False, timers = []\<rparr>"

text \<open>The updater passed to \<^verbatim>\<open>setEnvironment\<close> in toggleEnvironment (lines 31-37).\<close>

fun next_environment :: "environment \<Rightarrow> environment" where
  "next_environment prev =
     (if prev = cyber then nature
      else if prev = nature then desert
      else if prev = desert then rainforest
      else if prev = rainforest then iceland
      else cyber)"

definition toggleEnvironment :: "app_state \<Rightarrow> app_state" where
  "toggleEnvironment st =
     (if isTransitioning st then st
      else st\<lparr>isTransitioning := True, timers := timers st @ [(500, ToggleFadeOut)]\<rparr>)"

definition handleEnvironmentChange :: "environment \<Rightarrow> app_state \<Rightarrow> app_state" where
  "handleEnvironmentChange newEnv st =
     (if isTransitioning st \<or> environment st = newEnv then st
      else st\<lparr>isTransitioning := True, timers := timers st @ [(500, ChangeFadeOut newEnv)]\<rparr>)"

fun run_callback :: "timer_callback \<Rightarrow> app_state \<Rightarrow> app_state" where
  "run_callback ToggleFadeOut st =
     st\<lparr>environment := next_environment (environment st),
        timers := timers st @ [(500, FadeIn)]\<rparr>"
| "run_callback (ChangeFadeOut newEnv) st =
     st\<lparr>environment := newEnv, timers := timers st @ [(500, FadeIn)]\<rparr>"
| "run_callback FadeIn st = st\<lparr>isTransitioning := False\<rparr>"

text \<open>The oldest pending timer expires and its callback runs.\<close>

definition fire_timer :: "app_state \<Rightarrow> app_state" where
  "fire_timer st =
     (case timers st of
        [] \<Rightarrow> st
      | (_, cb) # rest \<Rightarrow> run_callback cb (st\<lparr>timers := rest\<rparr>))"

text \<open>
  A completed toggle: the button's handler runs, then the fade-out timer and the
  fade-in timer expire.
\<close>

definition completed_toggle :: "app_state \<Rightarrow> app_state" where
  "completed_toggle st = fire_timer (fire_timer (toggleEnvironment st))"

text \<open>The application at rest in environment \<open>e\<close>: no transition, no pending timer.\<close>

definition at_rest :: "environment \<Rightarrow> app_state" where
  "at_rest e = \<lparr>environment = e, isTransitioning = False, timers = []\<rparr>"

text \<open>The environments seen after 1, 2, ..., n completed toggles.\<close>

fun visited :: "nat \<Rightarrow> app_state \<Rightarrow> environment list" where
  "visited 0 st = []"
| "visited (Suc n) st =
     environment (completed_toggle st) # visited n (completed_toggle st)"

section \<open>Strings (JavaScript built-ins used by the components)\<close>

text \<open>
  A JavaScript string is modelled as a \<open>string\<close> whose characters are the code units
  below 256. \<^verbatim>\<open>\s\<close> in a regular expression and \<^verbatim>\<open>String.prototype.trim\<close> use
  the same set of white space and line terminators; below 256 these are TAB, LF, VT, FF,
  CR, SPACE and NBSP.
\<close>

definition is_whitespace :: "char \<Rightarrow> bool" where
  "is_whitespace c = (of_char c \<in> {9, 10, 11, 12, 13, 32, 160 :: nat})"

text \<open>
  \<^verbatim>\<open>toLowerCase\<close>: below 256 the upper-case letters are A-Z and the Latin-1 letters
  0xC0-0xDE except the multiplication sign 0xD7; each is 32 below its lower-case form.
\<close>

definition toLowerCase_char :: "char \<Rightarrow> char" where
  "toLowerCase_char c =
     (let n = of_char c :: nat
      in if (65 \<le> n \<and> n \<le> 90) \<or> (192 \<le> n \<and> n \<le> 222 \<and> n \<noteq> 215)
         then char_of (n + 32) else c)"

definition toLowerCase :: "string \<Rightarrow> string" where
  "toLowerCase s = map toLowerCase_char s"

definition startsWith :: "string \<Rightarrow> string \<Rightarrow> bool" where
  "startsWith s w = (take (length w) s = w)"

definition trim :: "string \<Rightarrow> string" where
  "trim s = rev (dropWhile is_whitespace (rev (dropWhile is_whitespace s)))"


section \<open>Voice commands (src/src/components/Experience.tsx, lines 53-110)\<close>

subsection \<open>The command prefix\<close>

text \<open>
  \<^verbatim>\<open>lowerTranscript.replace(/^(show|generate|create)\s+(me\s+)?(a\s+)?/, "")\<close>.
  The expression is anchored and has no flag, so it matches at most once, at position 0.
  \<^item> \<open>match_literal w s\<close>: the literal \<open>w\<close> at the start of \<open>s\<close>; the rest of \<open>s\<close>.
  \<^item> \<open>match_spaces s\<close>: \<^verbatim>\<open>\s+\<close>, greedy: one white space or more, all of them.
  \<^item> \<open>match_word w s\<close>: \<open>w\<close> followed by \<^verbatim>\<open>\s+\<close>.
  \<^item> \<open>optional_word w s\<close>: the group \<^verbatim>\<open>(w\s+)?\<close>: taken when it matches, empty
    otherwise.
  \<^item> \<open>match_command s\<close>: the alternatives in their order, each followed by \<^verbatim>\<open>\s+\<close>.
  What follows \<^verbatim>\<open>\s+\<close> can always match the empty string and none of the words starts
  with white space, so the first, greedy attempt is the match the engine reports.
  When the expression does not match, \<^verbatim>\<open>replace\<close> returns the string as it is.
\<close>

definition match_literal :: "string \<Rightarrow> string \<Rightarrow> string option" where
  "match_literal w s = (if startsWith s w then Some (drop (length w) s) else None)"

definition match_spaces :: "string \<Rightarrow> string option" where
  "match_spaces s =
     (case s of
        [] \<Rightarrow> None
      | c # cs \<Rightarrow> if is_whitespace c then Some (dropWhile is_whitespace cs) else None)"

definition match_word :: "string \<Rightarrow> string \<Rightarrow> string option" where
  "match_word w s = (case match_literal w s of None \<Rightarrow> None | Some r \<Rightarrow> match_spaces r)"

definition optional_word :: "string \<Rightarrow> string \<Rightarrow> string" where
  "optional_word w s = (case match_word w s of None \<Rightarrow> s | Some r \<Rightarrow> r)"

definition match_command :: "string \<Rightarrow> string option" where
  "match_command s =
     (case match_word ''show'' s of
        Some r \<Rightarrow> Some r
      | None \<Rightarrow>
         (case match_word ''generate'' s of
            Some r \<Rightarrow> Some r
          | None \<Rightarrow> match_word ''create'' s))"

definition replace_command :: "string \<Rightarrow> string" where
  "replace_command s =
     (case match_command s of
        None \<Rightarrow> s
      | Some r \<Rightarrow> optional_word ''a'' (optional_word ''me'' r))"

subsection \<open>The corrections table\<close>

text \<open>
  The value of \<^verbatim>\<open>objectName\<close>: a string, or, after
  \<^verbatim>\<open>objectName = corrections[objectName]\<close>, whatever the property lookup returned.
  \<^verbatim>\<open>corrections\<close> is an object literal, so a lookup that finds no own property goes
  on to \<^verbatim>\<open>Object.prototype\<close>. \<open>JSInherited k\<close> is the value found there under the
  name \<open>k\<close>: a function (\<^verbatim>\<open>constructor\<close> is \<^verbatim>\<open>Object\<close> itself) or, for
  \<^verbatim>\<open>__proto__\<close>, the prototype object. None of them is a string and all are truthy.
\<close>

datatype js_value = JSString string | JSInherited string

text \<open>What generateHologramCode resolves with, and a rejection reason or thrown value.\<close>

record response =
  code :: string
  description :: string

datatype js_error = JSError string

datatype console_entry =
    Autocorrecting string js_value
  | VoiceCommandDetected js_value
  | CallingGenerate
  | GenerateResolved response
  | GenerateFailed js_error

definition corrections :: "(string \<times> string) list" where
  "corrections =
     [(''the art'', ''earth''),
      (''art'', ''earth''),
      (''birth'', ''earth''),
      (''girth'', ''earth''),
      (''hurt'', ''heart''),
      (''part'', ''heart''),
      (''boxs'', ''box''),
      (''spear'', ''sphere''),
      (''tourist'', ''torus''),
      (''taurus'', ''torus''),
      (''corn'', ''cone''),
      (''not'', ''knot'')]"

definition Object_prototype_names :: "string list" where
  "Object_prototype_names =
     [''constructor'', ''__proto__'', ''hasOwnProperty'', ''isPrototypeOf'',
      ''propertyIsEnumerable'', ''toLocaleString'', ''toString'', ''valueOf'',
      ''__defineGetter__'', ''__defineSetter__'', ''__lookupGetter__'',
      ''__lookupSetter__'']"

text \<open>\<^verbatim>\<open>corrections[k]\<close>; \<open>None\<close> is \<^verbatim>\<open>undefined\<close>.\<close>

definition corrections_get :: "string \<Rightarrow> js_value option" where
  "corrections_get k =
     (case map_of corrections k of
        Some v \<Rightarrow> Some (JSString v)
      | None \<Rightarrow> if k \<in> set Object_prototype_names then Some (JSInherited k) else None)"

text \<open>
  The condition of \<^verbatim>\<open>if (corrections[objectName])\<close>: \<^verbatim>\<open>undefined\<close> and the
  empty string are falsy, every other string, function and object is truthy.
\<close>

fun truthy :: "js_value option \<Rightarrow> bool" where
  "truthy None = False"
| "truthy (Some (JSString s)) = (s \<noteq> [])"
| "truthy (Some (JSInherited k)) = True"

text \<open>
  Lines 82-85: \<^verbatim>\<open>if (corrections[objectName]) { console.log(...); objectName =
  corrections[objectName]; }\<close>. The result is what the console receives and the new
  value of \<^verbatim>\<open>objectName\<close>.
\<close>

definition autocorrect :: "string \<Rightarrow> console_entry list \<times> js_value" where
  "autocorrect objectName =
     (case corrections_get objectName of
        Some v \<Rightarrow>
          if truthy (Some v) then ([Autocorrecting objectName v], v)
          else ([], JSString objectName)
      | None \<Rightarrow> ([], JSString objectName))"

subsection \<open>The effect\<close>

text \<open>
  The state the effect reads and writes: the ref and the React state of Experience, and
  the calls it makes to the outside (\<^verbatim>\<open>addLog\<close>, \<^verbatim>\<open>generateHologramCode\<close>,
  \<^verbatim>\<open>speakText\<close>, \<^verbatim>\<open>audio.play\<close>, the console), in order.
  \<open>hologramData\<close> has the type \<^verbatim>\<open>any\<close>; \<open>None\<close> is \<^verbatim>\<open>null\<close>.
\<close>

record 'h experience_state =
  prevTranscriptRef :: string
  generatedCode :: "string option"
  hologramData :: "'h option"
  addLog_calls :: "(string \<times> string \<times> string) list"
  generate_calls :: "js_value list"
  speakText_calls :: "string list"
  audio_plays :: nat
  console :: "console_entry list"

definition initial_experience_state :: "'h experience_state" where
  "initial_experience_state =
     \<lparr>prevTranscriptRef = [], generatedCode = None, hologramData = None,
      addLog_calls = [], generate_calls = [], speakText_calls = [], audio_plays = 0,
      console = []\<rparr>"

definition is_command :: "string \<Rightarrow> bool" where
  "is_command lowerTranscript =
     (startsWith lowerTranscript ''show'' \<or> startsWith lowerTranscript ''generate''
      \<or> startsWith lowerTranscript ''create'')"

text \<open>
  The synchronous part of the effect, for the current \<^verbatim>\<open>voiceState\<close> and
  \<^verbatim>\<open>transcript\<close>. It returns the new state and the argument of the call to
  generateHologramCode it has issued, if any.
\<close>

definition voice_effect ::
  "string \<Rightarrow> string \<Rightarrow> 'h experience_state \<Rightarrow> 'h experience_state \<times> js_value option"
where
  "voice_effect voiceState transcript st =
     (let isVoiceActive = (voiceState = ''thinking'' \<or> voiceState = ''speaking'')
      in if isVoiceActive \<and> transcript \<noteq> [] \<and> transcript \<noteq> prevTranscriptRef st then
           let st1 = st\<lparr>addLog_calls := addLog_calls st @
                          [(''dialogue'', ''Atlas'',
                            ''Voice Command: '' @ [CHR 0x22] @ transcript @ [CHR 0x22])],
                        prevTranscriptRef := transcript\<rparr>;
               lowerTranscript = toLowerCase transcript
           in if is_command lowerTranscript then
                let (logged, objectName) = autocorrect (trim (replace_command lowerTranscript))
                in (st1\<lparr>console := console st1 @ logged @
                            [VoiceCommandDetected objectName, CallingGenerate],
                         generate_calls := generate_calls st1 @ [objectName]\<rparr>,
                    Some objectName)
              else (st1, None)
         else (st, None))"

text \<open>The \<^verbatim>\<open>then\<close> callback (lines 91-104).\<close>

definition on_resolved :: "response \<Rightarrow> 'h experience_state \<Rightarrow> 'h experience_state" where
  "on_resolved response st =
     st\<lparr>console := console st @ [GenerateResolved response],
        generatedCode := Some (code response),
        addLog_calls := addLog_calls st @
          [(''action'', ''Luna'',
            ''Initializing Holographic Protocol: '' @ description response)],
        speakText_calls := speakText_calls st @ [''Activating holographic display.'']\<rparr>"

text \<open>The callback on the buffer speakText resolves with (lines 97-104).\<close>

definition on_speech :: "bool \<Rightarrow> 'h experience_state \<Rightarrow> 'h experience_state" where
  "on_speech buffer st = (if buffer then st\<lparr>audio_plays := audio_plays st + 1\<rparr> else st)"

text \<open>The \<^verbatim>\<open>catch\<close> callback (lines 105-107).\<close>

definition on_rejected :: "js_error \<Rightarrow> 'h experience_state \<Rightarrow> 'h experience_state" where
  "on_rejected err st = st\<lparr>console := console st @ [GenerateFailed err]\<rparr>"

text \<open>
  The effect with the promise settled: \<open>generateHologramCode\<close> is the service, which
  rejects (\<open>Inl\<close>) or resolves (\<open>Inr\<close>).
\<close>

definition run_voice_effect ::
  "(js_value \<Rightarrow> js_error + response) \<Rightarrow> string \<Rightarrow> string \<Rightarrow>
     'h experience_state \<Rightarrow> 'h experience_state"
where
  "run_voice_effect generateHologramCode voiceState transcript st =
     (case voice_effect voiceState transcript st of
        (st1, None) \<Rightarrow> st1
      | (st1, Some objectName) \<Rightarrow>
          (case generateHologramCode objectName of
             Inr response \<Rightarrow> on_resolved response st1
           | Inl err \<Rightarrow> on_rejected err st1))"

section \<open>Rooms (src/src/components/Experience.tsx, lines 230-270)\<close>






section \<open>Mood analysis (MoodService.analyzeMood, src/unnamed/part_000)\<close>

text \<open>
  What \<^verbatim>\<open>JSON.parse\<close> returns: any JSON value. The cast \<^verbatim>\<open>as MoodResult\<close> is a
  compile-time annotation and leaves the value as it is.
\<close>

datatype json =
    JNull
  | JBool bool
  | JNumber real
  | JString string
  | JArray "json list"
  | JObject "(string \<times> json) list"

text \<open>\<^verbatim>\<open>s.split(sep)\<close> for a separator of one character, and \<^verbatim>\<open>xs[i]\<close>.\<close>

fun split_on :: "char \<Rightarrow> string \<Rightarrow> string list" where
  "split_on sep [] = [[]]"
| "split_on sep (c # cs) =
     (if c = sep then [] # split_on sep cs
      else (case split_on sep cs of
              [] \<Rightarrow> [[c]]
            | part # parts \<Rightarrow> (c # part) # parts))"

definition element_at :: "'a list \<Rightarrow> nat \<Rightarrow> 'a option" where
  "element_at xs i = (if i < length xs then Some (xs ! i) else None)"

text \<open>
  \<^verbatim>\<open>text.replace(/```json\n?|\n?```/g, "")\<close>: from left to right, at each position
  the first alternative (the fence, \<^verbatim>\<open>json\<close> and a line feed if there is one) is
  tried before the second (a line feed if there is one, and the fence); a match is
  deleted and the scan goes on after it.
\<close>

definition fence :: string where
  "fence = [CHR 0x60, CHR 0x60, CHR 0x60]"

definition newline :: char where
  "newline = CHR 0x0A"

function remove_fences :: "string \<Rightarrow> string" where
  "remove_fences s =
     (if s = [] then []
      else if startsWith s (fence @ ''json'') then
        (let rest = drop 7 s
         in remove_fences (if startsWith rest [newline] then drop 1 rest else rest))
      else if startsWith s (newline # fence) then remove_fences (drop 4 s)
      else if startsWith s fence then remove_fences (drop 3 s)
      else hd s # remove_fences (tl s))"
  by pat_completeness auto
termination
  by (relation "measure length") (auto simp: startsWith_def Let_def)


text \<open>
  What the browser, the model and \<^verbatim>\<open>JSON.parse\<close> answer during one call; \<open>Inl\<close> is
  a thrown exception or a rejected promise.
  \<^item> \<open>getContext\<close>: \<open>Inr False\<close> is the \<^verbatim>\<open>null\<close> context;
  \<^item> \<open>generateContent\<close>: given \<^verbatim>\<open>base64Image\<close> (\<open>None\<close> is \<^verbatim>\<open>undefined\<close>), it
    rejects, or resolves with a result whose \<^verbatim>\<open>response.text()\<close> throws or returns
    the text.
\<close>

record mood_world =
  createElement :: "js_error + unit"
  getContext :: "js_error + bool"
  drawImage :: "js_error + unit"
  toDataURL :: "js_error + string"
  generateContent :: "string option \<Rightarrow> js_error + (js_error + string)"
  JSON_parse :: "string \<Rightarrow> js_error + json"

text \<open>
  The body of the \<^verbatim>\<open>try\<close> block (lines 22-68), in the order of the source. The size
  of the canvas is arithmetic on numbers, which does not throw and which no later branch
  reads; console output is left out.
\<close>

definition analyzeMood_try :: "mood_world \<Rightarrow> js_error + json" where
  "analyzeMood_try w =
     (case createElement w of
        Inl e \<Rightarrow> Inl e
      | Inr _ \<Rightarrow>
     (case getContext w of
        Inl e \<Rightarrow> Inl e
      | Inr ctx \<Rightarrow>
     if \<not> ctx then Inr JNull
     else
     (case drawImage w of
        Inl e \<Rightarrow> Inl e
      | Inr _ \<Rightarrow>
     (case toDataURL w of
        Inl e \<Rightarrow> Inl e
      | Inr url \<Rightarrow>
     (let base64Image = element_at (split_on CHR '','' url) 1
      in case generateContent w base64Image of
        Inl e \<Rightarrow> Inl e
      | Inr result \<Rightarrow>
     (case result of
        Inl e \<Rightarrow> Inl e
      | Inr text \<Rightarrow>
     (let cleanText = trim (remove_fences text)
      in case JSON_parse w cleanText of
        Inl e \<Rightarrow> Inl e
      | Inr data \<Rightarrow> Inr data)))))))"

text \<open>
  analyzeMood: the \<^verbatim>\<open>catch\<close> clause turns every exception into \<^verbatim>\<open>null\<close>. The
  result type keeps \<open>Inl\<close> for a promise that rejects.
\<close>

definition analyzeMood :: "mood_world \<Rightarrow> js_error + json" where
  "analyzeMood w =
     (case analyzeMood_try w of
        Inl error \<Rightarrow> Inr JNull
      | Inr data \<Rightarrow> Inr data)"

text \<open>
  One concrete call, used in the examples below: the capture succeeds, the model answers
  \<open>text\<close>, and \<open>parse\<close> stands for \<^verbatim>\<open>JSON.parse\<close>. \<open>ocean_parse\<close> is \<^verbatim>\<open>JSON.parse\<close> on
  the one text it is applied to here.
\<close>

definition example_world :: "string \<Rightarrow> (string \<Rightarrow> js_error + json) \<Rightarrow> mood_world" where
  "example_world text parse =
     \<lparr>createElement = Inr (), getContext = Inr True, drawImage = Inr (),
      toDataURL = Inr ''data:image/jpeg;base64,AAAA'',
      generateContent = (\<lambda>image. if image = Some ''AAAA'' then Inr (Inr text)
                                  else Inl (JSError ''no image'')),
      JSON_parse = parse\<rparr>"

definition ocean_text :: string where
  \<open>ocean_text = ''{"mood":"Calm","suggestedEnvironment":"ocean","reasoning":"Waves."}''\<close>

definition ocean_parse :: "string \<Rightarrow> js_error + json" where
  "ocean_parse s =
     (if s = ocean_text
      then Inr (JObject [(''mood'', JString ''Calm''),
                         (''suggestedEnvironment'', JString ''ocean''),
                         (''reasoning'', JString ''Waves.'')])
      else Inl (JSError ''SyntaxError''))"

section \<open>Instance placement (IcelandRoom.tsx lines 31-83, RainforestRoom lines 508-531)\<close>

type_synonym vec3 = "real \<times> real \<times> real"

text \<open>
  The matrix \<^verbatim>\<open>dummy.updateMatrix()\<close> composes from the position, the rotation and the
  scale of the \<^verbatim>\<open>Object3D\<close>, kept as these three components.
\<close>

record matrix4 =
  position :: vec3
  rotation :: vec3
  scale :: vec3




text \<open>
  An instanced mesh: one matrix per instance, and one colour (hue, saturation,
  lightness) per instance once \<^verbatim>\<open>setColorAt\<close> has set it.
\<close>

record instanced_mesh =
  instanceMatrix :: "matrix4 list"
  instanceColor :: "vec3 option list"


text \<open>Writes past the last instance fall outside the typed array and are dropped.\<close>

definition setMatrixAt :: "nat \<Rightarrow> matrix4 \<Rightarrow> instanced_mesh \<Rightarrow> instanced_mesh" where
  "setMatrixAt i m mesh = mesh\<lparr>instanceMatrix := (instanceMatrix mesh)[i := m]\<rparr>"

definition setColorAt :: "nat \<Rightarrow> vec3 \<Rightarrow> instanced_mesh \<Rightarrow> instanced_mesh" where
  "setColorAt i c mesh = mesh\<lparr>instanceColor := (instanceColor mesh)[i := Some c]\<rparr>"

text \<open>
  \<^verbatim>\<open>for (let i = 0; i < n; i++) body\<close> on a state: the body runs for 0, 1, ..., n - 1.
\<close>

fun for_loop :: "nat \<Rightarrow> (nat \<Rightarrow> 's \<Rightarrow> 's) \<Rightarrow> 's \<Rightarrow> 's" where
  "for_loop 0 body s = s"
| "for_loop (Suc n) body s = body n (for_loop n body s)"





text \<open>Small chunks (lines 65-80).\<close>

definition chunk_matrix :: "(nat \<Rightarrow> real) \<Rightarrow> nat \<Rightarrow> matrix4" where
  "chunk_matrix random k =
     (let angle = random k * pi * 2;
          r = 10 + random (k + 1) * 90;
          x = sin angle * r;
          z = cos angle * r;
          s = 0.5 + random (k + 2)
      in \<lparr>position = (x, 0, z),
          rotation = (random (k + 3), random (k + 4), random (k + 5)),
          scale = (s, s * 0.5, s)\<rparr>)"

definition chunk_body ::
  "(nat \<Rightarrow> real) \<Rightarrow> nat \<Rightarrow> instanced_mesh \<times> nat \<Rightarrow> instanced_mesh \<times> nat" where
  "chunk_body random i = (\<lambda>(mesh, k).
     (setColorAt i (0.55, 0.8, 0.95) (setMatrixAt i (chunk_matrix random k) mesh),
      k + 6))"

definition place_chunks :: "(nat \<Rightarrow> real) \<Rightarrow> instanced_mesh option \<Rightarrow> instanced_mesh option" where
  "place_chunks random iceRef2 =
     (case iceRef2 of
        None \<Rightarrow> None
      | Some mesh \<Rightarrow> Some (fst (for_loop 200 (chunk_body random) (mesh, 0))))"







section \<open>Environment switching\<close>

lemma completed_toggle_at_rest:
  "completed_toggle (at_rest e) = at_rest (next_environment e)"
  by (simp add: completed_toggle_def at_rest_def toggleEnvironment_def fire_timer_def)

lemma environment_at_rest: "environment (at_rest e) = e"
  by (simp add: at_rest_def)

text \<open>
  C8. While a transition is in progress, toggleEnvironment and handleEnvironmentChange
  return the state as it is: the environment, the transition flag and the queue of
  scheduled timers are all unchanged. handleEnvironmentChange called with the current
  environment changes nothing either, in any state.
\<close>

theorem transition_guard:
  "(isTransitioning st \<longrightarrow>
      toggleEnvironment st = st \<and> (\<forall>newEnv. handleEnvironmentChange newEnv st = st))
   \<and> handleEnvironmentChange (environment st) st = st"
  by (simp add: toggleEnvironment_def handleEnvironmentChange_def)

theorem transition_guard_witness:
  "isTransitioning (fire_timer (toggleEnvironment initial_app_state))
   \<and> toggleEnvironment (fire_timer (toggleEnvironment initial_app_state))
       = fire_timer (toggleEnvironment initial_app_state)
   \<and> handleEnvironmentChange desert (fire_timer (toggleEnvironment initial_app_state))
       = fire_timer (toggleEnvironment initial_app_state)
   \<and> environment (fire_timer (toggleEnvironment initial_app_state)) = nature
   \<and> timers (fire_timer (toggleEnvironment initial_app_state)) = [(500, FadeIn)]
   \<and> handleEnvironmentChange cyber initial_app_state = initial_app_state"
proof -
  let ?st = "fire_timer (toggleEnvironment initial_app_state)"
  have t: "isTransitioning ?st"
    by (simp add: fire_timer_def toggleEnvironment_def initial_app_state_def)
  have e: "environment ?st = nature" "timers ?st = [(500, FadeIn)]"
    by (simp_all add: fire_timer_def toggleEnvironment_def initial_app_state_def)
  have c: "environment initial_app_state = cyber"
    by (simp add: initial_app_state_def)
  from transition_guard [of ?st] t
  have "toggleEnvironment ?st = ?st" "handleEnvironmentChange desert ?st = ?st"
    by blast+
  moreover from transition_guard [of initial_app_state] c
  have "handleEnvironmentChange cyber initial_app_state = initial_app_state"
    by simp
  ultimately show ?thesis using t e by simp
qed

text \<open>
  C9. The successor applied by toggleEnvironment is a 5-cycle in the order cyber, nature,
  desert, rainforest, iceland: a completed toggle from rest in \<open>e\<close> ends at rest in the
  successor of \<open>e\<close>; from cyber, five completed toggles visit nature, desert, rainforest,
  iceland, cyber; from any environment, five completed toggles visit five different
  environments, which are all five, and end at rest in the starting environment.
\<close>

theorem toggle_five_cycle:
  "completed_toggle (at_rest e) = at_rest (next_environment e)
   \<and> map next_environment [cyber, nature, desert, rainforest, iceland]
       = [nature, desert, rainforest, iceland, cyber]
   \<and> visited 5 (at_rest cyber) = [nature, desert, rainforest, iceland, cyber]
   \<and> distinct (visited 5 (at_rest e))
   \<and> set (visited 5 (at_rest e)) = {cyber, nature, desert, rainforest, iceland}
   \<and> last (visited 5 (at_rest e)) = e
   \<and> (completed_toggle ^^ 5) (at_rest e) = at_rest e"
proof -
  have v: "visited 5 (at_rest e) =
      [next_environment e, (next_environment ^^ 2) e, (next_environment ^^ 3) e,
       (next_environment ^^ 4) e, (next_environment ^^ 5) e]"
    by (simp add: eval_nat_numeral completed_toggle_at_rest environment_at_rest
          del: next_environment.simps)
  have p: "(completed_toggle ^^ 5) (at_rest e) = at_rest ((next_environment ^^ 5) e)"
    by (simp add: eval_nat_numeral completed_toggle_at_rest del: next_environment.simps)
  show ?thesis
    unfolding v p
    by (cases e)
      (simp_all add: eval_nat_numeral completed_toggle_at_rest environment_at_rest
         insert_commute)
qed

section \<open>Voice commands: properties\<close>

lemma corrections_distinct: "distinct (map fst corrections)"
  by (simp add: corrections_def)

lemma corrections_get_key:
  "(k, v) \<in> set corrections \<Longrightarrow> corrections_get k = Some (JSString v) \<and> v \<noteq> []"
proof -
  assume a: "(k, v) \<in> set corrections"
  then have "map_of corrections k = Some v"
    using corrections_distinct by (rule_tac map_of_is_SomeI)
  moreover from a have "v \<noteq> []" by (auto simp: corrections_def)
  ultimately show ?thesis by (simp add: corrections_get_def)
qed

lemma corrections_get_other:
  "k \<notin> fst ` set corrections \<Longrightarrow> k \<notin> set Object_prototype_names \<Longrightarrow> corrections_get k = None"
proof -
  assume "k \<notin> fst ` set corrections" and p: "k \<notin> set Object_prototype_names"
  then have "map_of corrections k = None"
    by (simp add: map_of_eq_None_iff)
  with p show ?thesis by (simp add: corrections_get_def)
qed

lemma is_command_nonempty: "is_command (toLowerCase t) \<Longrightarrow> t \<noteq> []"
  by (auto simp: is_command_def startsWith_def toLowerCase_def)

lemma voice_effect_command:
  assumes "voiceState = ''thinking'' \<or> voiceState = ''speaking''"
    and "transcript \<noteq> prevTranscriptRef st"
    and "is_command (toLowerCase transcript)"
  shows "snd (voice_effect voiceState transcript st)
           = Some (snd (autocorrect (trim (replace_command (toLowerCase transcript)))))"
    and "generate_calls (fst (voice_effect voiceState transcript st))
           = generate_calls st @ [snd (autocorrect (trim (replace_command (toLowerCase transcript))))]"
    and "generatedCode (fst (voice_effect voiceState transcript st)) = generatedCode st"
    and "addLog_calls (fst (voice_effect voiceState transcript st))
           = addLog_calls st @ [(''dialogue'', ''Atlas'',
                            ''Voice Command: '' @ [CHR 0x22] @ transcript @ [CHR 0x22])]"
    and "speakText_calls (fst (voice_effect voiceState transcript st)) = speakText_calls st"
    and "audio_plays (fst (voice_effect voiceState transcript st)) = audio_plays st"
  using assms is_command_nonempty [OF assms(3)]
  by (auto simp: voice_effect_def Let_def split: option.splits prod.splits)

lemma autocorrect_key: "(k, v) \<in> set corrections \<Longrightarrow> snd (autocorrect k) = JSString v"
  using corrections_get_key [of k v] by (simp add: autocorrect_def)

lemma autocorrect_other:
  "k \<notin> fst ` set corrections \<Longrightarrow> k \<notin> set Object_prototype_names \<Longrightarrow> snd (autocorrect k) = JSString k"
  using corrections_get_other [of k] by (simp add: autocorrect_def)

lemma voice_effect_Some:
  assumes "voice_effect voiceState transcript st = (st1, Some objectName)"
  shows "voiceState = ''thinking'' \<or> voiceState = ''speaking''"
    and "transcript \<noteq> prevTranscriptRef st"
    and "is_command (toLowerCase transcript)"
  using assms
  by (auto simp: voice_effect_def Let_def split: if_splits prod.splits)

text \<open>
  C1 (amended). For a transcript received while the voice state is thinking or speaking,
  different from the previous one, whose lower-case form starts with show, generate or
  create: generateHologramCode is called once, with the name left by the regular
  expression and \<^verbatim>\<open>trim\<close> after the corrections table has been applied to it, that is
  with the table's value when the name is a key of the table, and with the name itself
  when it is neither a key of the table nor a property name of \<^verbatim>\<open>Object.prototype\<close>.
  When the call resolves, the code of the response becomes the generated code and the
  action log entry with the description of the response follows the dialogue entry.
\<close>

theorem voice_command_generates:
  assumes "voiceState = ''thinking'' \<or> voiceState = ''speaking''"
    and "transcript \<noteq> prevTranscriptRef st"
    and "is_command (toLowerCase transcript)"
  shows "\<exists>objectName.
      snd (voice_effect voiceState transcript st) = Some objectName
    \<and> generate_calls (fst (voice_effect voiceState transcript st))
        = generate_calls st @ [objectName]
    \<and> (\<forall>v. (trim (replace_command (toLowerCase transcript)), v) \<in> set corrections
           \<longrightarrow> objectName = JSString v)
    \<and> (trim (replace_command (toLowerCase transcript)) \<notin> fst ` set corrections
       \<and> trim (replace_command (toLowerCase transcript)) \<notin> set Object_prototype_names
       \<longrightarrow> objectName = JSString (trim (replace_command (toLowerCase transcript))))
    \<and> (\<forall>response. generateHologramCode objectName = Inr response \<longrightarrow>
          generatedCode (run_voice_effect generateHologramCode voiceState transcript st)
            = Some (code response)
        \<and> addLog_calls (run_voice_effect generateHologramCode voiceState transcript st)
            = addLog_calls st @
              [(''dialogue'', ''Atlas'',
                ''Voice Command: '' @ [CHR 0x22] @ transcript @ [CHR 0x22]),
               (''action'', ''Luna'',
                ''Initializing Holographic Protocol: '' @ description response)])"
proof -
  let ?name = "trim (replace_command (toLowerCase transcript))"
  let ?arg = "snd (autocorrect ?name)"
  obtain st1 where ve: "voice_effect voiceState transcript st = (st1, Some ?arg)"
    using voice_effect_command(1) [OF assms] by (cases "voice_effect voiceState transcript st") simp
  have st1: "st1 = fst (voice_effect voiceState transcript st)"
    by (simp add: ve)
  have calls: "generate_calls st1 = generate_calls st @ [?arg]"
    unfolding st1 by (rule voice_effect_command(2) [OF assms])
  have logs: "addLog_calls st1 = addLog_calls st @
      [(''dialogue'', ''Atlas'', ''Voice Command: '' @ [CHR 0x22] @ transcript @ [CHR 0x22])]"
    unfolding st1 by (rule voice_effect_command(4) [OF assms])
  have run: "generateHologramCode ?arg = Inr response \<Longrightarrow>
      run_voice_effect generateHologramCode voiceState transcript st = on_resolved response st1"
    for response
    by (simp add: run_voice_effect_def ve)
  have "snd (voice_effect voiceState transcript st) = Some ?arg"
    by (simp add: ve)
  moreover have "generate_calls (fst (voice_effect voiceState transcript st))
      = generate_calls st @ [?arg]"
    using calls by (simp add: ve)
  moreover have "\<forall>v. (?name, v) \<in> set corrections \<longrightarrow> ?arg = JSString v"
    by (simp add: autocorrect_key)
  moreover have "?name \<notin> fst ` set corrections \<and> ?name \<notin> set Object_prototype_names
      \<longrightarrow> ?arg = JSString ?name"
    by (simp add: autocorrect_other)
  moreover have "\<forall>response. generateHologramCode ?arg = Inr response \<longrightarrow>
          generatedCode (run_voice_effect generateHologramCode voiceState transcript st)
            = Some (code response)
        \<and> addLog_calls (run_voice_effect generateHologramCode voiceState transcript st)
            = addLog_calls st @
              [(''dialogue'', ''Atlas'',
                ''Voice Command: '' @ [CHR 0x22] @ transcript @ [CHR 0x22]),
               (''action'', ''Luna'',
                ''Initializing Holographic Protocol: '' @ description response)]"
    using logs by (simp add: run on_resolved_def)
  ultimately show ?thesis by blast
qed

theorem voice_command_generates_witness:
  "snd (voice_effect ''speaking'' ''Create me a Taurus''
          (initial_experience_state :: unit experience_state))
     = Some (JSString ''torus'')
   \<and> generate_calls (fst (voice_effect ''speaking'' ''Create me a Taurus''
          (initial_experience_state :: unit experience_state)))
     = [JSString ''torus'']
   \<and> generatedCode (run_voice_effect
          (\<lambda>_. Inr \<lparr>code = ''torus()'', description = ''a torus''\<rparr>)
          ''speaking'' ''Create me a Taurus''
          (initial_experience_state :: unit experience_state))
     = Some ''torus()''
   \<and> addLog_calls (run_voice_effect
          (\<lambda>_. Inr \<lparr>code = ''torus()'', description = ''a torus''\<rparr>)
          ''speaking'' ''Create me a Taurus''
          (initial_experience_state :: unit experience_state))
     = [(''dialogue'', ''Atlas'',
         ''Voice Command: '' @ [CHR 0x22] @ ''Create me a Taurus'' @ [CHR 0x22]),
        (''action'', ''Luna'', ''Initializing Holographic Protocol: a torus'')]
   \<and> snd (voice_effect ''thinking'' ''generate a cube''
          (initial_experience_state :: unit experience_state))
     = Some (JSString ''cube'')"
proof -
  let ?st = "initial_experience_state :: unit experience_state"
  let ?gen = "\<lambda>_ :: js_value.
      Inr \<lparr>code = ''torus()'', description = ''a torus''\<rparr> :: js_error + response"
  have a: "''speaking'' = ''thinking'' \<or> ''speaking'' = ''speaking''" by simp
  have b: "''Create me a Taurus'' \<noteq> prevTranscriptRef ?st"
    by (simp add: initial_experience_state_def)
  have c: "is_command (toLowerCase ''Create me a Taurus'')" by code_simp
  have n: "trim (replace_command (toLowerCase ''Create me a Taurus'')) = ''taurus''"
    by code_simp
  have k: "(''taurus'', ''torus'') \<in> set corrections"
    by (simp add: corrections_def)
  have i: "generate_calls ?st = []" "addLog_calls ?st = []"
    by (simp_all add: initial_experience_state_def)
  from voice_command_generates [OF a b c, of ?gen]
  have first: "snd (voice_effect ''speaking'' ''Create me a Taurus'' ?st)
        = Some (JSString ''torus'')
      \<and> generate_calls (fst (voice_effect ''speaking'' ''Create me a Taurus'' ?st))
        = [JSString ''torus'']
      \<and> generatedCode (run_voice_effect ?gen ''speaking'' ''Create me a Taurus'' ?st)
        = Some ''torus()''
      \<and> addLog_calls (run_voice_effect ?gen ''speaking'' ''Create me a Taurus'' ?st)
        = [(''dialogue'', ''Atlas'',
            ''Voice Command: '' @ [CHR 0x22] @ ''Create me a Taurus'' @ [CHR 0x22]),
           (''action'', ''Luna'', ''Initializing Holographic Protocol: a torus'')]"
    unfolding n using k i by auto
  have a': "''thinking'' = ''thinking'' \<or> ''thinking'' = ''speaking''" by simp
  have b': "''generate a cube'' \<noteq> prevTranscriptRef ?st"
    by (simp add: initial_experience_state_def)
  have c': "is_command (toLowerCase ''generate a cube'')" by code_simp
  have n': "trim (replace_command (toLowerCase ''generate a cube'')) = ''cube''"
    by code_simp
  have k': "''cube'' \<notin> fst ` set corrections" "''cube'' \<notin> set Object_prototype_names"
    by (simp_all add: corrections_def Object_prototype_names_def)
  from voice_command_generates [OF a' b' c', of ?gen]
  have second: "snd (voice_effect ''thinking'' ''generate a cube'' ?st)
        = Some (JSString ''cube'')"
    unfolding n' using k' by auto
  from first second show ?thesis by simp
qed

text \<open>
  C1 as stated fails: for the transcript "show art" the name left by the regular
  expression and \<^verbatim>\<open>trim\<close> is "art", and generateHologramCode is called with "earth".
\<close>

theorem voice_command_uncorrected_counterexample:
  "(''thinking'' = ''thinking'' \<or> ''thinking'' = ''speaking'')
   \<and> ''show art'' \<noteq> prevTranscriptRef (initial_experience_state :: unit experience_state)
   \<and> startsWith (toLowerCase ''show art'') ''show''
   \<and> trim (replace_command (toLowerCase ''show art'')) = ''art''
   \<and> snd (voice_effect ''thinking'' ''show art''
            (initial_experience_state :: unit experience_state))
       = Some (JSString ''earth'')
   \<and> snd (voice_effect ''thinking'' ''show art''
            (initial_experience_state :: unit experience_state))
       \<noteq> Some (JSString ''art'')"
  by code_simp

text \<open>
  C5. The name "constructor" is not a key of the corrections table, and it is not passed
  through unchanged: \<^verbatim>\<open>corrections["constructor"]\<close> finds the property inherited from
  \<^verbatim>\<open>Object.prototype\<close>, which is truthy, so for the transcript "Show constructor"
  generateHologramCode is called with that inherited value.
\<close>

theorem inherited_name_is_autocorrected:
  "trim (replace_command (toLowerCase ''Show constructor'')) = ''constructor''
   \<and> ''constructor'' \<notin> fst ` set corrections
   \<and> snd (voice_effect ''thinking'' ''Show constructor''
            (initial_experience_state :: unit experience_state))
       = Some (JSInherited ''constructor'')
   \<and> generate_calls (fst (voice_effect ''thinking'' ''Show constructor''
            (initial_experience_state :: unit experience_state)))
       = [JSInherited ''constructor'']"
  by code_simp

text \<open>
  C6. When the effect has issued a call of generateHologramCode and the call rejects, the
  only change made afterwards is the console entry of the failure: there is exactly one
  call of generateHologramCode for the command, the generated code is unchanged, the only
  log entry added is the dialogue entry of the transcript, speakText is not called and no
  audio is played.
\<close>

theorem generate_rejection:
  assumes "voice_effect voiceState transcript st = (st1, Some objectName)"
    and "generateHologramCode objectName = Inl err"
  shows "run_voice_effect generateHologramCode voiceState transcript st
           = st1\<lparr>console := console st1 @ [GenerateFailed err]\<rparr>
    \<and> generate_calls (run_voice_effect generateHologramCode voiceState transcript st)
        = generate_calls st @ [objectName]
    \<and> generatedCode (run_voice_effect generateHologramCode voiceState transcript st)
        = generatedCode st
    \<and> addLog_calls (run_voice_effect generateHologramCode voiceState transcript st)
        = addLog_calls st @
          [(''dialogue'', ''Atlas'',
            ''Voice Command: '' @ [CHR 0x22] @ transcript @ [CHR 0x22])]
    \<and> speakText_calls (run_voice_effect generateHologramCode voiceState transcript st)
        = speakText_calls st
    \<and> audio_plays (run_voice_effect generateHologramCode voiceState transcript st)
        = audio_plays st"
proof -
  note c = voice_effect_Some [OF assms(1)]
  have run: "run_voice_effect generateHologramCode voiceState transcript st
      = on_rejected err st1"
    by (simp add: run_voice_effect_def assms)
  have st1: "st1 = fst (voice_effect voiceState transcript st)"
    and arg: "objectName = snd (autocorrect (trim (replace_command (toLowerCase transcript))))"
    using assms(1) voice_effect_command(1) [OF c] by simp_all
  show ?thesis
    unfolding run on_rejected_def
    using voice_effect_command(2-6) [OF c] by (simp add: st1 [symmetric] arg [symmetric])
qed

theorem generate_rejection_witness:
  "run_voice_effect (\<lambda>_. Inl (JSError ''quota'')) ''thinking'' ''show me a cube''
       (initial_experience_state :: unit experience_state)
     = \<lparr>prevTranscriptRef = ''show me a cube'', generatedCode = None, hologramData = None,
        addLog_calls = [(''dialogue'', ''Atlas'',
            ''Voice Command: '' @ [CHR 0x22] @ ''show me a cube'' @ [CHR 0x22])],
        generate_calls = [JSString ''cube''], speakText_calls = [], audio_plays = 0,
        console = [VoiceCommandDetected (JSString ''cube''), CallingGenerate,
                   GenerateFailed (JSError ''quota'')]\<rparr>"
proof -
  let ?st = "initial_experience_state :: unit experience_state"
  let ?st1 = "\<lparr>prevTranscriptRef = ''show me a cube'', generatedCode = None,
        hologramData = None :: unit option,
        addLog_calls = [(''dialogue'', ''Atlas'',
            ''Voice Command: '' @ [CHR 0x22] @ ''show me a cube'' @ [CHR 0x22])],
        generate_calls = [JSString ''cube''], speakText_calls = [], audio_plays = 0,
        console = [VoiceCommandDetected (JSString ''cube''), CallingGenerate]\<rparr>"
  have v: "voice_effect ''thinking'' ''show me a cube'' ?st = (?st1, Some (JSString ''cube''))"
    by code_simp
  have g: "(\<lambda>_ :: js_value. Inl (JSError ''quota'') :: js_error + response) (JSString ''cube'')
      = Inl (JSError ''quota'')"
    by simp
  from generate_rejection [OF v g] show ?thesis by simp
qed


section \<open>Mood analysis: properties\<close>













text \<open>
  C4. The parsed value is returned unchecked: for a response whose JSON names the
  environment "ocean", analyzeMood returns the object with \<^verbatim>\<open>suggestedEnvironment\<close>
  "ocean", which is none of the five environments.
\<close>

theorem suggestedEnvironment_unchecked:
  "analyzeMood (example_world (fence @ ''json'' @ [newline] @ ocean_text @ [newline] @ fence)
      ocean_parse)
   = Inr (JObject [(''mood'', JString ''Calm''),
                   (''suggestedEnvironment'', JString ''ocean''),
                   (''reasoning'', JString ''Waves.'')])
   \<and> ''ocean'' \<notin> {''cyber'', ''nature'', ''desert'', ''rainforest'', ''iceland''}"
  by code_simp


section \<open>Instance placement: properties\<close>



lemma chunk_loop:
  "for_loop n (chunk_body random) (mesh, 0) = (mesh', k) \<Longrightarrow>
   k = 6 * n \<and> length (instanceMatrix mesh') = length (instanceMatrix mesh)
   \<and> (\<forall>i < length (instanceMatrix mesh).
        instanceMatrix mesh' ! i =
          (if i < n then chunk_matrix random (6 * i) else instanceMatrix mesh ! i))"
proof (induction n arbitrary: mesh' k)
  case 0
  then show ?case by simp
next
  case (Suc n)
  obtain m1 k1 where prev: "for_loop n (chunk_body random) (mesh, 0) = (m1, k1)"
    by (cases "for_loop n (chunk_body random) (mesh, 0)")
  note ih = Suc.IH [OF prev]
  from Suc.prems prev have step: "chunk_body random n (m1, k1) = (mesh', k)"
    by simp
  then show ?case
    using ih
    by (auto simp: chunk_body_def setMatrixAt_def setColorAt_def nth_list_update less_Suc_eq)
qed






lemma place_chunks_nth:
  assumes "length (instanceMatrix mesh) = 200" and "i < 200"
  shows "\<exists>mesh'. place_chunks random (Some mesh) = Some mesh'
           \<and> instanceMatrix mesh' ! i = chunk_matrix random (6 * i)"
proof -
  obtain m k where l: "for_loop 200 (chunk_body random) (mesh, 0) = (m, k)"
    by (cases "for_loop 200 (chunk_body random) (mesh, 0)")
  from chunk_loop [OF l] assms have "instanceMatrix m ! i = chunk_matrix random (6 * i)"
    by simp
  then show ?thesis by (simp add: place_chunks_def l)
qed









end
